theory Spec2Isabelle
  imports Complex_Main
begin

section \<open>Python strings and numbers used by the loader\<close>

text \<open>
  A Python \<open>str\<close> is modelled as a \<open>string\<close>. Case mapping is modelled on the ASCII letters;
  \<open>str.strip()\<close> removes the characters Python counts as whitespace among the first 256
  code points. Python floats are modelled by the exact rational they denote: binary rounding,
  infinities and NaN are outside the model.
\<close>

definition py_isspace :: "char \<Rightarrow> bool" where
  "py_isspace c = ((of_char c :: nat) \<in> {9, 10, 11, 12, 13, 28, 29, 30, 31, 32, 133, 160})"

definition py_strip :: "string \<Rightarrow> string" where
  "py_strip s = rev (dropWhile py_isspace (rev (dropWhile py_isspace s)))"

definition lower_char :: "char \<Rightarrow> char" where
  "lower_char c = (let n = (of_char c :: nat) in if 65 \<le> n \<and> n \<le> 90 then char_of (n + 32) else c)"

definition upper_char :: "char \<Rightarrow> char" where
  "upper_char c = (let n = (of_char c :: nat) in if 97 \<le> n \<and> n \<le> 122 then char_of (n - 32) else c)"

definition py_lower :: "string \<Rightarrow> string" where
  "py_lower s = map lower_char s"

definition py_upper :: "string \<Rightarrow> string" where
  "py_upper s = map upper_char s"

text \<open>\<open>value.replace(c, '')\<close> for a one-character \<open>c\<close>.\<close>

definition remove_char :: "char \<Rightarrow> string \<Rightarrow> string" where
  "remove_char c s = filter (\<lambda>x. x \<noteq> c) s"

definition digit_val :: "char \<Rightarrow> nat option" where
  "digit_val c = (let n = (of_char c :: nat) in if 48 \<le> n \<and> n \<le> 57 then Some (n - 48) else None)"

text \<open>The value of a possibly empty run of decimal digits, read left to right.\<close>

fun digits_val :: "nat \<Rightarrow> string \<Rightarrow> nat option" where
  "digits_val acc [] = Some acc"
| "digits_val acc (c # cs) =
     (case digit_val c of None \<Rightarrow> None | Some d \<Rightarrow> digits_val (10 * acc + d) cs)"

definition unsigned :: "string \<Rightarrow> string" where
  "unsigned s = (case s of [] \<Rightarrow> [] | c # r \<Rightarrow> if c = CHR ''-'' \<or> c = CHR ''+'' then r else s)"

definition is_negative :: "string \<Rightarrow> bool" where
  "is_negative s = (case s of [] \<Rightarrow> False | c # r \<Rightarrow> c = CHR ''-'')"

text \<open>
  The builtin \<open>int(s)\<close> on a string: surrounding whitespace, an optional sign and a non-empty
  run of decimal digits; anything else is a \<open>ValueError\<close> (\<open>None\<close>). Digit-group
  underscores are not modelled.
\<close>

definition py_int :: "string \<Rightarrow> int option" where
  "py_int s =
     (let t = py_strip s; u = unsigned t in
      if u = [] then None
      else case digits_val 0 u of
             None \<Rightarrow> None
           | Some n \<Rightarrow> Some (if is_negative t then - int n else int n))"

text \<open>
  The builtin \<open>float(s)\<close> on a string: surrounding whitespace, an optional sign, digits with
  an optional decimal point and at least one digit. Exponents and the \<open>inf\<close>/\<open>nan\<close>
  literals are not modelled.
\<close>

definition py_float :: "string \<Rightarrow> rat option" where
  "py_float s =
     (let t = py_strip s; u = unsigned t;
          ip = takeWhile (\<lambda>c. c \<noteq> CHR ''.'') u;
          fp = drop 1 (dropWhile (\<lambda>c. c \<noteq> CHR ''.'') u) in
      if ip = [] \<and> fp = [] then None
      else case (digits_val 0 ip, digits_val 0 fp) of
             (Some a, Some b) \<Rightarrow>
               (let r = (of_nat a :: rat) + of_nat b / 10 ^ length fp
                in Some (if is_negative t then - r else r))
           | _ \<Rightarrow> None)"

text \<open>\<open>int(x)\<close> on a float: truncation toward zero.\<close>

definition int_of_float :: "rat \<Rightarrow> int" where
  "int_of_float r = (if 0 \<le> r then \<lfloor>r\<rfloor> else \<lceil>r\<rceil>)"

definition digit_char :: "nat \<Rightarrow> char" where
  "digit_char d = char_of (48 + d)"

function show_nat :: "nat \<Rightarrow> string" where
  "show_nat n = (if n < 10 then [digit_char n] else show_nat (n div 10) @ [digit_char (n mod 10)])"
  by pat_completeness auto
termination
  by (relation "measure id") auto

declare show_nat.simps [simp del]

definition show_int :: "int \<Rightarrow> string" where
  "show_int i = (if i < 0 then CHR ''-'' # show_nat (nat (- i)) else show_nat (nat i))"

section \<open>Values, messages and column specifications\<close>

text \<open>
  The loader's messages are f-strings; the model keeps the template and the interpolated
  parts as a datatype instead of the formatted text.
\<close>

datatype message =
    FileNotFound string
  | MissingColumns "string set"
  | ExtraColumns "string set"
  | NonNullableNull string
  | CannotParse string "string option" string
  | InvalidValue string string
  | Quarantined nat string
  | OtherError string

datatype py_exception = ValueError message | TypeError message

text \<open>An entry of the \<open>exceptions\<close> lists: a field-level exception of a row, or a bare error.\<close>

datatype exception_record =
    FieldException (exc_row: nat) (exc_column: string) (exc_value: "string option") (exc_error: message)
  | ErrorOnly message

datatype pyval =
    PNone
  | PStr string
  | PInt int
  | PFloat rat
  | PBool bool
  | PExcs "exception_record list"

text \<open>
  \<open>str(v)\<close>. The text Python prints for a float or for a list of dictionaries is not
  modelled: it is the parameter \<open>rp\<close>.
\<close>

definition py_str :: "(pyval \<Rightarrow> string) \<Rightarrow> pyval \<Rightarrow> string" where
  "py_str rp v =
     (case v of
        PNone \<Rightarrow> ''None''
      | PStr s \<Rightarrow> s
      | PInt i \<Rightarrow> show_int i
      | PBool b \<Rightarrow> (if b then ''True'' else ''False'')
      | _ \<Rightarrow> rp v)"

text \<open>The numeric value of an \<open>int\<close>, \<open>float\<close> or \<open>bool\<close> (a \<open>bool\<close> is an \<open>int\<close> in Python).\<close>

definition num_val :: "pyval \<Rightarrow> rat option" where
  "num_val v =
     (case v of
        PInt i \<Rightarrow> Some (of_int i)
      | PFloat r \<Rightarrow> Some r
      | PBool b \<Rightarrow> Some (if b then 1 else 0)
      | _ \<Rightarrow> None)"

definition is_number :: "pyval \<Rightarrow> bool" where
  "is_number v = (num_val v \<noteq> None)"

text \<open>\<open>a == b\<close> on values: numbers compare by value, strings by content.\<close>

definition py_eq :: "pyval \<Rightarrow> pyval \<Rightarrow> bool" where
  "py_eq a b =
     (case (num_val a, num_val b) of
        (Some x, Some y) \<Rightarrow> x = y
      | (None, None) \<Rightarrow> a = b
      | _ \<Rightarrow> False)"

definition py_in :: "pyval \<Rightarrow> pyval list \<Rightarrow> bool" where
  "py_in v xs = list_ex (py_eq v) xs"

text \<open>
  \<open>a <= b\<close> and \<open>a < b\<close> where one side is known to be a number: a non-numeric other side
  raises \<open>TypeError\<close>.
\<close>

definition num_le :: "pyval \<Rightarrow> pyval \<Rightarrow> py_exception + bool" where
  "num_le a b =
     (case (num_val a, num_val b) of
        (Some x, Some y) \<Rightarrow> Inr (x \<le> y)
      | _ \<Rightarrow> Inl (TypeError (OtherError ''not supported between instances'')))"

definition num_lt :: "pyval \<Rightarrow> pyval \<Rightarrow> py_exception + bool" where
  "num_lt a b =
     (case (num_val a, num_val b) of
        (Some x, Some y) \<Rightarrow> Inr (x < y)
      | _ \<Rightarrow> Inl (TypeError (OtherError ''not supported between instances'')))"

text \<open>\<open>min(a, b)\<close> keeps \<open>a\<close> unless \<open>b < a\<close>; \<open>max(a, b)\<close> keeps \<open>a\<close> unless \<open>b > a\<close>.\<close>

definition py_min :: "pyval \<Rightarrow> pyval \<Rightarrow> py_exception + pyval" where
  "py_min a b = (case num_lt b a of Inl e \<Rightarrow> Inl e | Inr lt \<Rightarrow> Inr (if lt then b else a))"

definition py_max :: "pyval \<Rightarrow> pyval \<Rightarrow> py_exception + pyval" where
  "py_max a b = (case num_lt a b of Inl e \<Rightarrow> Inl e | Inr gt \<Rightarrow> Inr (if gt then b else a))"

record column_spec =
  name :: string
  dtype :: string
  nullable :: bool
  allowed_range :: "pyval list option"
  units :: "string option"
  primary_key :: bool
  unique :: bool

text \<open>The dataclass constructor with its defaults for the last three fields.\<close>

definition ColumnSpec :: "string \<Rightarrow> string \<Rightarrow> bool \<Rightarrow> pyval list option \<Rightarrow> column_spec" where
  "ColumnSpec n d nl ar =
     \<lparr>name = n, dtype = d, nullable = nl, allowed_range = ar,
      units = None, primary_key = False, unique = False\<rparr>"

definition NA_TOKENS :: "string set" where
  "NA_TOKENS =
     {'''', ''NA'', ''N/A'', ''n/a'', ''null'', ''NULL'', ''None'', ''NONE'',
      ''nan'', ''NaN'', ''NAN'', ''#N/A'', ''#NA'', ''#NULL!'', ''--'',
      ''undefined'', ''UNDEFINED'', ''missing'', ''MISSING'', ''-''}"

definition TEAM_MAPPINGS :: "(string \<times> string) list" where
  "TEAM_MAPPINGS =
     [(''BLT'', ''BAL''), (''ARZ'', ''ARI''), (''HST'', ''HOU''), (''LA'', ''LAR''), (''CLV'', ''CLE'')]"

definition VALID_TEAMS :: "string list" where
  "VALID_TEAMS =
     [''ARI'', ''ATL'', ''BAL'', ''BUF'', ''CAR'', ''CHI'', ''CIN'', ''CLE'',
      ''DAL'', ''DEN'', ''DET'', ''GB'', ''HOU'', ''IND'', ''JAX'', ''KC'',
      ''LAC'', ''LAR'', ''LV'', ''MIA'', ''MIN'', ''NE'', ''NO'', ''NYG'',
      ''NYJ'', ''PHI'', ''PIT'', ''SEA'', ''SF'', ''TB'', ''TEN'', ''WAS'', ''WSH'']"

definition VALID_TEAMS_WITH_MAPPINGS :: "string list" where
  "VALID_TEAMS_WITH_MAPPINGS = VALID_TEAMS @ map fst TEAM_MAPPINGS"

definition VALID_POSITIONS :: "string list" where
  "VALID_POSITIONS = [''QB'', ''RB'', ''WR'', ''TE'', ''DST'', ''K'', ''DEF'', ''PK'']"

definition TEAM_COLUMNS :: "string list" where
  "TEAM_COLUMNS = [''teamName'', ''Team Abbreviation'', ''Team'']"

section \<open>The value coercer: \<open>RobustCSVLoader.parse_value\<close>\<close>

text \<open>
  A raw value is a string, or \<open>None\<close> where the reader filled a short row. The NA test is
  \<open>value in NA_TOKENS or (isinstance(value, str) and value.strip() in NA_TOKENS)\<close>.
\<close>

definition is_na_token :: "string option \<Rightarrow> bool" where
  "is_na_token v = (case v of None \<Rightarrow> False | Some s \<Rightarrow> s \<in> NA_TOKENS \<or> py_strip s \<in> NA_TOKENS)"

text \<open>
  The \<open>try\<close> block: the parsed value and the coercion flag, or the caught
  \<open>ValueError\<close>/\<open>TypeError\<close> together with \<open>value\<close> as it is bound at that point.
\<close>

datatype conversion = Converted pyval bool | Failed "string option"

definition convert_int :: "string option \<Rightarrow> conversion" where
  "convert_int v =
     (case v of
        None \<Rightarrow> Failed None
      | Some s \<Rightarrow>
          (let x = py_strip (remove_char CHR ''$'' (remove_char CHR '','' s)) in
           if CHR ''.'' \<in> set x then
             (case py_float x of
                None \<Rightarrow> Failed (Some x)
              | Some r \<Rightarrow> Converted (PInt (int_of_float r)) True)
           else
             (case py_int x of
                None \<Rightarrow> Failed (Some x)
              | Some i \<Rightarrow> Converted (PInt i) False)))"

definition convert_float :: "string option \<Rightarrow> conversion" where
  "convert_float v =
     (case v of
        None \<Rightarrow> Failed None
      | Some s \<Rightarrow>
          (let x = py_strip (remove_char CHR ''%'' (remove_char CHR ''$'' (remove_char CHR '','' s))) in
           case py_float x of
             None \<Rightarrow> Failed (Some x)
           | Some r \<Rightarrow> Converted (PFloat r) False))"

definition convert_bool :: "string option \<Rightarrow> conversion" where
  "convert_bool v =
     (case v of
        None \<Rightarrow> Converted (PBool False) False
      | Some s \<Rightarrow>
          (let value_lower = py_strip (py_lower s) in
           if value_lower \<in> {''true'', ''yes'', ''1'', ''t'', ''y''} then Converted (PBool True) False
           else if value_lower \<in> {''false'', ''no'', ''0'', ''f'', ''n''} then Converted (PBool False) False
           else Failed (Some s)))"

definition try_convert :: "string option \<Rightarrow> column_spec \<Rightarrow> conversion" where
  "try_convert v spec =
     (if dtype spec = ''str'' then
        Converted (case v of None \<Rightarrow> PNone | Some s \<Rightarrow> if s = [] then PNone else PStr (py_strip s)) False
      else if dtype spec = ''int'' then convert_int v
      else if dtype spec = ''float'' then convert_float v
      else if dtype spec = ''bool'' then convert_bool v
      else Converted (PStr (case v of None \<Rightarrow> ''None'' | Some s \<Rightarrow> s)) True)"

text \<open>The numeric branch of the range validation: clamp a value outside the range.\<close>

definition validate_numeric ::
  "pyval list \<Rightarrow> pyval \<Rightarrow> bool \<Rightarrow> py_exception + (pyval \<times> bool)" where
  "validate_numeric ar parsed was_coerced =
     (let min_val = hd ar; max_val = last ar in
      case num_le min_val parsed of
        Inl e \<Rightarrow> Inl e
      | Inr lo_ok \<Rightarrow>
          (case (if lo_ok then num_le parsed max_val else Inr False) of
             Inl e \<Rightarrow> Inl e
           | Inr True \<Rightarrow> Inr (parsed, was_coerced)
           | Inr False \<Rightarrow>
               (case py_min parsed max_val of
                  Inl e \<Rightarrow> Inl e
                | Inr m \<Rightarrow>
                    (case py_max min_val m of
                       Inl e \<Rightarrow> Inl e
                     | Inr c \<Rightarrow> Inr (c, True)))))"

text \<open>The categorical branch: exact member, team alias, upper-cased member, upper-cased alias.\<close>

definition validate_categorical ::
  "(pyval \<Rightarrow> string) \<Rightarrow> column_spec \<Rightarrow> pyval list \<Rightarrow> pyval \<Rightarrow> bool \<Rightarrow> py_exception + (pyval \<times> bool)" where
  "validate_categorical rp spec ar parsed was_coerced =
     (if \<not> py_in parsed ar then
        (if name spec \<in> set TEAM_COLUMNS \<and>
            (case parsed of PStr p \<Rightarrow> map_of TEAM_MAPPINGS p \<noteq> None | _ \<Rightarrow> False) then
           Inr (PStr (the (map_of TEAM_MAPPINGS (case parsed of PStr p \<Rightarrow> p | _ \<Rightarrow> []))), True)
         else if dtype spec = ''str'' then
           (let upper_val = py_upper (py_str rp parsed) in
            if py_in (PStr upper_val) ar then Inr (PStr upper_val, True)
            else if name spec \<in> set TEAM_COLUMNS \<and> map_of TEAM_MAPPINGS upper_val \<noteq> None then
              Inr (PStr (the (map_of TEAM_MAPPINGS upper_val)), True)
            else if nullable spec then Inr (PNone, True)
            else Inl (ValueError (InvalidValue (py_str rp parsed) (name spec))))
         else Inr (parsed, was_coerced))
      else Inr (parsed, was_coerced))"

definition validate_allowed ::
  "(pyval \<Rightarrow> string) \<Rightarrow> column_spec \<Rightarrow> pyval \<Rightarrow> bool \<Rightarrow> py_exception + (pyval \<times> bool)" where
  "validate_allowed rp spec parsed was_coerced =
     (case allowed_range spec of
        None \<Rightarrow> Inr (parsed, was_coerced)
      | Some ar \<Rightarrow>
          if parsed = PNone \<or> ar = [] then Inr (parsed, was_coerced)
          else if is_number (hd ar) then validate_numeric ar parsed was_coerced
          else validate_categorical rp spec ar parsed was_coerced)"

definition parse_value ::
  "(pyval \<Rightarrow> string) \<Rightarrow> string option \<Rightarrow> column_spec \<Rightarrow> py_exception + (pyval \<times> bool)" where
  "parse_value rp v spec =
     (if is_na_token v then
        (if nullable spec then Inr (PNone, False)
         else Inl (ValueError (NonNullableNull (name spec))))
      else
        case try_convert v spec of
          Failed x \<Rightarrow>
            if nullable spec then Inr (PNone, True)
            else Inl (ValueError (CannotParse (name spec) x (dtype spec)))
        | Converted parsed was_coerced \<Rightarrow> validate_allowed rp spec parsed was_coerced)"

section \<open>The schema registry: \<open>RobustCSVLoader._parse_column_specs\<close>\<close>

text \<open>
  A dictionary is an association list read with \<open>map_of\<close>. The registry maps a file name to
  the column specifications of that file.
\<close>

type_synonym column_specs = "(string \<times> column_spec) list"

definition num_range :: "int \<Rightarrow> int \<Rightarrow> pyval list option" where
  "num_range lo hi = Some [PInt lo, PInt hi]"

definition categories :: "string list \<Rightarrow> pyval list option" where
  "categories xs = Some (map PStr xs)"

definition spec_entry :: "string \<Rightarrow> string \<Rightarrow> bool \<Rightarrow> pyval list option \<Rightarrow> string \<times> column_spec" where
  "spec_entry n d nl ar = (n, ColumnSpec n d nl ar)"

definition projections_specs :: column_specs where
  "projections_specs =
     [spec_entry ''fantasyPointsRank'' ''int'' False (num_range 1 1000),
      spec_entry ''playerName'' ''str'' False None,
      spec_entry ''teamName'' ''str'' False (categories VALID_TEAMS_WITH_MAPPINGS),
      spec_entry ''position'' ''str'' False (categories VALID_POSITIONS),
      spec_entry ''byeWeek'' ''int'' True (num_range 1 18),
      spec_entry ''games'' ''float'' True (num_range 0 17),
      spec_entry ''fantasyPoints'' ''float'' False (num_range 0 500),
      spec_entry ''auctionValue'' ''int'' True (num_range 0 200),
      spec_entry ''passComp'' ''float'' True (num_range 0 1000),
      spec_entry ''passAtt'' ''float'' True (num_range 0 1000),
      spec_entry ''passYds'' ''float'' True (num_range 0 10000),
      spec_entry ''passTd'' ''float'' True (num_range 0 100),
      spec_entry ''passInt'' ''float'' True (num_range 0 50),
      spec_entry ''passSacked'' ''float'' True (num_range 0 100),
      spec_entry ''rushAtt'' ''float'' True (num_range 0 500),
      spec_entry ''rushYds'' ''float'' True (num_range (- 100) 3000),
      spec_entry ''rushTd'' ''float'' True (num_range 0 30),
      spec_entry ''recvTargets'' ''float'' True (num_range 0 300),
      spec_entry ''recvReceptions'' ''float'' True (num_range 0 200),
      spec_entry ''recvYds'' ''float'' True (num_range 0 3000),
      spec_entry ''recvTd'' ''float'' True (num_range 0 30),
      spec_entry ''fumbles'' ''float'' True (num_range 0 20),
      spec_entry ''fumblesLost'' ''float'' True (num_range 0 20),
      spec_entry ''twoPt'' ''float'' True (num_range 0 10)]"

definition adp0_specs :: column_specs where
  "adp0_specs =
     [spec_entry ''Overall Rank'' ''int'' False (num_range 1 600),
      spec_entry ''Full Name'' ''str'' False None,
      spec_entry ''Team Abbreviation'' ''str'' False (categories VALID_TEAMS_WITH_MAPPINGS),
      spec_entry ''Position'' ''str'' False (categories VALID_POSITIONS),
      spec_entry ''Position Rank'' ''int'' False (num_range 1 200),
      spec_entry ''Bye Week'' ''int'' True (num_range 1 18),
      spec_entry ''ADP'' ''float'' True (num_range 1 300),
      spec_entry ''Projected Points'' ''float'' True (num_range 0 500),
      spec_entry ''Auction Value'' ''int'' True (num_range 0 200),
      spec_entry ''Is Rookie'' ''str'' True (categories [''Yes'', ''No'']),
      spec_entry ''Data Status'' ''str'' True None]"

definition preseason_specs :: column_specs where
  "preseason_specs =
     [spec_entry ''Team'' ''str'' False (categories VALID_TEAMS_WITH_MAPPINGS),
      spec_entry ''Point Spread Rating Points'' ''float'' True None,
      spec_entry ''Point Spread Rating QB'' ''float'' True None,
      spec_entry ''Strength of Schedule To Date'' ''float'' True None,
      spec_entry ''Strength of Schedule Remaining'' ''int'' True None,
      spec_entry ''Projections Avg. Wins'' ''float'' True (num_range 0 17),
      spec_entry ''Projections Make Playoffs'' ''float'' True (num_range 0 100),
      spec_entry ''Projections Win Division Title'' ''float'' True (num_range 0 100),
      spec_entry ''Projections Win Conf Champ'' ''float'' True (num_range 0 100),
      spec_entry ''Projections Win Super Bowl'' ''float'' True (num_range 0 100)]"

definition parse_column_specs :: "(string \<times> column_specs) list" where
  "parse_column_specs =
     [(''projections_2025.csv'', projections_specs),
      (''adp0_2025.csv'', adp0_specs),
      (''preseason_rankings_2025.csv'', preseason_specs)]"

section \<open>The untyped coercer of the second loader: \<open>RobustCSVLoaderV2.parse_value\<close>\<close>





section \<open>The duplicate detector: \<open>RobustCSVLoader.detect_duplicates\<close>\<close>

text \<open>A record is a dictionary from column names to values, in insertion order.\<close>

type_synonym row = "(string \<times> pyval) list"

fun dict_set :: "string \<Rightarrow> pyval \<Rightarrow> row \<Rightarrow> row" where
  "dict_set k v [] = [(k, v)]"
| "dict_set k v (p # ps) = (if fst p = k then (k, v) # ps else p # dict_set k v ps)"

fun py_join :: "string \<Rightarrow> string list \<Rightarrow> string" where
  "py_join sep [] = []"
| "py_join sep [x] = x"
| "py_join sep (x # y # ys) = x @ sep @ py_join sep (y # ys)"

definition key_value :: "(pyval \<Rightarrow> string) \<Rightarrow> row \<Rightarrow> string \<Rightarrow> string" where
  "key_value rp r col =
     (let val = (case map_of r col of None \<Rightarrow> PStr '''' | Some x \<Rightarrow> x) in
      py_str rp (case val of PStr s \<Rightarrow> PStr (py_strip (py_lower s)) | _ \<Rightarrow> val))"

definition row_key :: "(pyval \<Rightarrow> string) \<Rightarrow> string list \<Rightarrow> row \<Rightarrow> string" where
  "row_key rp key_columns r = py_join ''|'' (map (key_value rp r) key_columns)"

text \<open>The loop over \<open>data\<close>, with \<open>seen_keys\<close>, \<open>unique\<close> and \<open>duplicates\<close> as they stand.\<close>

fun dedupe_loop ::
  "(pyval \<Rightarrow> string) \<Rightarrow> string list \<Rightarrow> row list \<Rightarrow> (string \<rightharpoonup> nat) \<Rightarrow> row list \<Rightarrow> row list
     \<Rightarrow> row list \<times> row list" where
  "dedupe_loop rp key_columns [] seen_keys uniq duplicates = (uniq, duplicates)"
| "dedupe_loop rp key_columns (r # rest) seen_keys uniq duplicates =
     (let key = row_key rp key_columns r in
      case seen_keys key of
        Some n \<Rightarrow>
          dedupe_loop rp key_columns rest seen_keys uniq
            (duplicates @
               [dict_set ''_duplicate_key'' (PStr key)
                  (dict_set ''_duplicate_of_row'' (PInt (int n)) r)])
      | None \<Rightarrow>
          dedupe_loop rp key_columns rest (seen_keys(key \<mapsto> length uniq + 1))
            (uniq @ [r]) duplicates)"

definition detect_duplicates ::
  "(pyval \<Rightarrow> string) \<Rightarrow> row list \<Rightarrow> string list \<Rightarrow> row list \<times> row list" where
  "detect_duplicates rp data_rows key_columns = dedupe_loop rp key_columns data_rows Map.empty [] []"

section \<open>The file loader: \<open>RobustCSVLoader.load_csv\<close>\<close>

text \<open>
  The file system and the \<open>csv\<close> reader are inputs of the model: whether the file exists,
  its hash, the reader's \<open>fieldnames\<close> (\<open>None\<close> for an empty file) and the rows it yields.
  A row is the list of items of the reader's dictionary: the key is \<open>None\<close> for the surplus
  fields of a long row, the value is \<open>None\<close> for the missing fields of a short one. Opening,
  reading and writing files are taken to succeed.
\<close>

type_synonym raw_row = "(string option \<times> string option) list"

record source_file =
  file_path :: string
  file_name :: string
  file_exists :: bool
  file_sha256 :: string
  fieldnames :: "string list option"
  file_rows :: "raw_row list"

record file_metadata =
  path :: string
  sha256 :: string
  row_count :: nat
  column_count :: nat
  parsed_rows :: nat
  quarantined_rows :: nat
  coercion_count :: nat
  null_count :: nat
  duplicate_count :: nat
  load_timestamp :: string
  exceptions :: "exception_record list"

record load_result =
  success :: bool
  data :: "row list"
  metadata :: file_metadata
  quarantined :: "row list"
  errors :: "message list"
  warnings :: "message list"

text \<open>The local variables of \<open>load_csv\<close> while the file is read.\<close>

record load_state =
  st_parsed_data :: "row list"
  st_quarantined_rows :: "row list"
  st_errors :: "message list"
  st_warnings :: "message list"
  st_coercion_count :: nat
  st_null_count :: nat
  st_total_rows :: nat
  st_exceptions :: "exception_record list"

text \<open>The local variables of one pass of the row loop, with the two file-level counters.\<close>

record row_state =
  rs_parsed_row :: row
  rs_row_exceptions :: "exception_record list"
  rs_row_valid :: bool
  rs_coercion_count :: nat
  rs_null_count :: nat

text \<open>What the two writers were given: \<open>None\<close> when the writer was not called.\<close>

record sinks =
  quarantine_sink :: "row list option"
  clean_sink :: "row list option"

record loader =
  column_specs :: "(string \<times> column_specs) list"
  load_history :: "file_metadata list"

definition exception_message :: "py_exception \<Rightarrow> message" where
  "exception_message e = (case e of ValueError m \<Rightarrow> m | TypeError m \<Rightarrow> m)"

text \<open>A column without a specification: \<open>str(value).strip() if value else None\<close>.\<close>

definition passthrough :: "string option \<Rightarrow> pyval" where
  "passthrough v = (case v of None \<Rightarrow> PNone | Some s \<Rightarrow> if s = [] then PNone else PStr (py_strip s))"

text \<open>
  The loop over the items of one row. The second component is the exception that leaves the
  loop: a \<open>ValueError\<close> re-raised in strict mode, or any other exception of \<open>parse_value\<close>.
\<close>

fun parse_cells ::
  "(pyval \<Rightarrow> string) \<Rightarrow> bool \<Rightarrow> column_specs \<Rightarrow> nat \<Rightarrow> raw_row \<Rightarrow> row_state
     \<Rightarrow> row_state \<times> py_exception option" where
  "parse_cells rp strict specs row_num [] rs = (rs, None)"
| "parse_cells rp strict specs row_num ((None, v) # rest) rs =
     parse_cells rp strict specs row_num rest rs"
| "parse_cells rp strict specs row_num ((Some c, v) # rest) rs =
     (let col_name = py_strip c in
      case map_of specs col_name of
        Some spec \<Rightarrow>
          (case parse_value rp v spec of
             Inr (parsed_val, was_coerced) \<Rightarrow>
               parse_cells rp strict specs row_num rest
                 (rs\<lparr>rs_parsed_row := dict_set col_name parsed_val (rs_parsed_row rs),
                     rs_coercion_count := rs_coercion_count rs + (if was_coerced then 1 else 0),
                     rs_null_count := rs_null_count rs + (if parsed_val = PNone then 1 else 0)\<rparr>)
           | Inl (ValueError m) \<Rightarrow>
               (let rs' = rs\<lparr>rs_row_exceptions :=
                                rs_row_exceptions rs @ [FieldException row_num col_name v m],
                              rs_row_valid := False\<rparr> in
                if strict then (rs', Some (ValueError m))
                else parse_cells rp strict specs row_num rest rs')
           | Inl e \<Rightarrow> (rs, Some e))
      | None \<Rightarrow>
          parse_cells rp strict specs row_num rest
            (rs\<lparr>rs_parsed_row := dict_set col_name (passthrough v) (rs_parsed_row rs)\<rparr>))"

text \<open>The loop over the rows, numbered from \<open>row_num\<close>, until a row raises.\<close>

fun parse_rows ::
  "(pyval \<Rightarrow> string) \<Rightarrow> bool \<Rightarrow> column_specs \<Rightarrow> nat \<Rightarrow> raw_row list \<Rightarrow> load_state
     \<Rightarrow> load_state \<times> py_exception option" where
  "parse_rows rp strict specs row_num [] st = (st, None)"
| "parse_rows rp strict specs row_num (r # rest) st =
     (let (rs, exc) =
            parse_cells rp strict specs row_num r
              \<lparr>rs_parsed_row = [(''_row_number'', PInt (int row_num))],
               rs_row_exceptions = [], rs_row_valid = True,
               rs_coercion_count = st_coercion_count st,
               rs_null_count = st_null_count st\<rparr>;
          st' = st\<lparr>st_total_rows := st_total_rows st + 1,
                   st_coercion_count := rs_coercion_count rs,
                   st_null_count := rs_null_count rs\<rparr>
      in case exc of
           Some e \<Rightarrow> (st', Some e)
         | None \<Rightarrow>
             if rs_row_valid rs then
               parse_rows rp strict specs (row_num + 1) rest
                 (st'\<lparr>st_parsed_data := st_parsed_data st' @ [rs_parsed_row rs]\<rparr>)
             else
               parse_rows rp strict specs (row_num + 1) rest
                 (st'\<lparr>st_quarantined_rows :=
                         st_quarantined_rows st' @
                           [dict_set ''_exceptions'' (PExcs (rs_row_exceptions rs))
                              (dict_set ''_quarantine_reason'' (PStr ''validation_failed'')
                                 (rs_parsed_row rs))],
                       st_exceptions := st_exceptions st' @ rs_row_exceptions rs\<rparr>))"

text \<open>The header validation, run when the file has column specifications.\<close>

definition validate_headers ::
  "bool \<Rightarrow> column_specs \<Rightarrow> string list option \<Rightarrow> load_state \<Rightarrow> load_state \<times> py_exception option" where
  "validate_headers strict specs fns st =
     (if specs = [] then (st, None)
      else
        let expected_cols = set (map fst specs);
            actual_cols = set (case fns of None \<Rightarrow> [] | Some f \<Rightarrow> f);
            missing_cols = expected_cols - actual_cols;
            extra_cols = actual_cols - expected_cols
        in if missing_cols \<noteq> {} \<and> strict then
             (st\<lparr>st_errors := st_errors st @ [MissingColumns missing_cols]\<rparr>,
              Some (ValueError (MissingColumns missing_cols)))
           else
             let st1 = (if missing_cols \<noteq> {}
                        then st\<lparr>st_warnings := st_warnings st @ [MissingColumns missing_cols]\<rparr>
                        else st);
                 st2 = (if extra_cols \<noteq> {}
                        then st1\<lparr>st_warnings := st_warnings st1 @ [ExtraColumns extra_cols]\<rparr>
                        else st1)
             in (st2, None))"

text \<open>The \<open>try\<close> block of \<open>load_csv\<close> with its \<open>except Exception\<close> handler.\<close>

definition read_file ::
  "(pyval \<Rightarrow> string) \<Rightarrow> bool \<Rightarrow> column_specs \<Rightarrow> source_file \<Rightarrow> load_state" where
  "read_file rp strict specs f =
     (let st0 = \<lparr>st_parsed_data = [], st_quarantined_rows = [], st_errors = [], st_warnings = [],
                 st_coercion_count = 0, st_null_count = 0, st_total_rows = 0, st_exceptions = []\<rparr>;
          (st1, exc1) = validate_headers strict specs (fieldnames f) st0;
          (st2, exc2) = (case exc1 of
                           Some e \<Rightarrow> (st1, Some e)
                         | None \<Rightarrow> parse_rows rp strict specs 2 (file_rows f) st1)
      in case exc2 of
           None \<Rightarrow> st2
         | Some e \<Rightarrow>
             st2\<lparr>st_errors := st_errors st2 @ [exception_message e],
                 st_exceptions := st_exceptions st2 @ [ErrorOnly (exception_message e)]\<rparr>)"

text \<open>The duplicate pass, for the two files that have key columns.\<close>

definition quarantine_duplicates :: "(pyval \<Rightarrow> string) \<Rightarrow> string \<Rightarrow> load_state \<Rightarrow> load_state" where
  "quarantine_duplicates rp filename st =
     (if st_parsed_data st \<noteq> [] \<and> filename \<in> {''projections_2025.csv'', ''adp0_2025.csv''} then
        let key_cols = (if filename = ''projections_2025.csv''
                        then [''playerName'', ''position'', ''teamName'']
                        else [''Full Name'', ''Position'', ''Team Abbreviation'']);
            (unique_data, duplicate_data) = detect_duplicates rp (st_parsed_data st) key_cols
        in st\<lparr>st_parsed_data := unique_data,
               st_quarantined_rows :=
                 st_quarantined_rows st @
                   map (dict_set ''_quarantine_reason'' (PStr ''duplicate'')) duplicate_data\<rparr>
      else st)"

text \<open>\<open>_write_clean_data\<close> drops the internal fields, whose names start with an underscore.\<close>

definition clean_row :: "row \<Rightarrow> row" where
  "clean_row r = filter (\<lambda>(k, v). \<not> (k \<noteq> [] \<and> hd k = CHR ''_'')) r"

definition not_found_result :: "source_file \<Rightarrow> string \<Rightarrow> load_result" where
  "not_found_result f now =
     \<lparr>success = False, data = [],
      metadata = \<lparr>path = file_path f, sha256 = '''', row_count = 0, column_count = 0,
                  parsed_rows = 0, quarantined_rows = 0, coercion_count = 0, null_count = 0,
                  duplicate_count = 0, load_timestamp = now,
                  exceptions = [ErrorOnly (FileNotFound (file_path f))]\<rparr>,
      quarantined = [], errors = [FileNotFound (file_path f)], warnings = []\<rparr>"

text \<open>
  \<open>load_csv\<close> returns the loader with its history, the result and what was written; it
  raises \<open>TypeError\<close> at \<open>len(reader.fieldnames)\<close> when the reader has no field names.
\<close>

definition load_csv ::
  "(pyval \<Rightarrow> string) \<Rightarrow> loader \<Rightarrow> source_file \<Rightarrow> bool \<Rightarrow> string
     \<Rightarrow> py_exception + (loader \<times> load_result \<times> sinks)" where
  "load_csv rp ld f strict now =
     (if \<not> file_exists f then
        Inr (ld, not_found_result f now, \<lparr>quarantine_sink = None, clean_sink = None\<rparr>)
      else
        let filename = file_name f;
            specs = (case map_of (column_specs ld) filename of None \<Rightarrow> [] | Some s \<Rightarrow> s);
            st = quarantine_duplicates rp filename (read_file rp strict specs f)
        in case fieldnames f of
             None \<Rightarrow> Inl (TypeError (OtherError ''object of type NoneType has no len()''))
           | Some fns \<Rightarrow>
               let md = \<lparr>path = file_path f, sha256 = file_sha256 f,
                         row_count = st_total_rows st, column_count = length fns,
                         parsed_rows = length (st_parsed_data st),
                         quarantined_rows = length (st_quarantined_rows st),
                         coercion_count = st_coercion_count st, null_count = st_null_count st,
                         duplicate_count =
                           length (filter (\<lambda>r. map_of r ''_quarantine_reason'' = Some (PStr ''duplicate''))
                                     (st_quarantined_rows st)),
                         load_timestamp = now, exceptions = st_exceptions st\<rparr>;
                   wrote_quarantine = (st_quarantined_rows st \<noteq> []);
                   wrote_clean = (st_parsed_data st \<noteq> [] \<and> st_errors st = [])
               in Inr (ld\<lparr>load_history := load_history ld @ [md]\<rparr>,
                       \<lparr>success = (st_errors st = []), data = st_parsed_data st, metadata = md,
                        quarantined = st_quarantined_rows st, errors = st_errors st,
                        warnings = st_warnings st @
                          (if wrote_quarantine
                           then [Quarantined (length (st_quarantined_rows st)) filename] else [])\<rparr>,
                       \<lparr>quarantine_sink = (if wrote_quarantine then Some (st_quarantined_rows st) else None),
                        clean_sink = (if wrote_clean then Some (map clean_row (st_parsed_data st)) else None)\<rparr>))"

section \<open>The audit aggregator: \<open>RobustCSVLoader.generate_audit_report\<close>\<close>

record audit_report =
  generated_at :: string
  total_files :: nat
  successful_loads :: nat
  failed_loads :: nat
  total_rows_parsed :: nat
  total_rows_quarantined :: nat
  total_coercions :: nat
  total_nulls :: nat
  total_duplicates :: nat
  files :: "(string \<times> bool \<times> file_metadata \<times> message list \<times> message list) list"

definition generate_audit_report :: "(string \<times> load_result) list \<Rightarrow> string \<Rightarrow> audit_report" where
  "generate_audit_report results now =
     \<lparr>generated_at = now,
      total_files = length results,
      successful_loads = length (filter (\<lambda>(p, r). success r) results),
      failed_loads = length (filter (\<lambda>(p, r). \<not> success r) results),
      total_rows_parsed = sum_list (map (\<lambda>(p, r). parsed_rows (metadata r)) results),
      total_rows_quarantined = sum_list (map (\<lambda>(p, r). quarantined_rows (metadata r)) results),
      total_coercions = sum_list (map (\<lambda>(p, r). coercion_count (metadata r)) results),
      total_nulls = sum_list (map (\<lambda>(p, r). null_count (metadata r)) results),
      total_duplicates = sum_list (map (\<lambda>(p, r). duplicate_count (metadata r)) results),
      files = map (\<lambda>(p, r). (p, success r, metadata r, errors r, warnings r)) results\<rparr>"

section \<open>The pipeline orchestrator: \<open>DataPipeline\<close>\<close>

text \<open>
  The pipeline's error strings are kept as a datatype. The outcome of the external integrity
  script, what \<open>load_all_canonical_data\<close> returned and the clock are inputs of a run. The
  quarantine ratio is the exact quotient: the rounding of Python's float division is not
  modelled. Writing a report file is taken to succeed and is recorded as an artifact.
\<close>

datatype pipeline_message =
    IntegrityCheckFailed string
  | IntegrityCheckTimeout
  | IntegrityCheckError string
  | QuarantineRatioExceeded rat rat
  | DataLoadingError pipeline_message
  | PreCheckFailed
  | PostCheckFailed
  | LoaderException string

datatype check_outcome = ExitZero | ExitNonZero string | TimeoutExpired | CheckRaised string

datatype loader_outcome = LoaderRaised string | Loaded "(string \<times> load_result) list"

record pipeline_config =
  version :: string
  stages :: "string list"
  fail_on_integrity_violation :: bool
  fail_on_validation_error :: bool
  max_quarantine_ratio :: rat

definition PIPELINE_CONFIG :: pipeline_config where
  "PIPELINE_CONFIG =
     \<lparr>version = ''1.0.0'',
      stages = [''integrity_pre_check'', ''data_loading'', ''data_validation'',
                ''data_transformation'', ''integrity_post_check'', ''metadata_generation''],
      fail_on_integrity_violation = True,
      fail_on_validation_error = False,
      max_quarantine_ratio = 1 / 10\<rparr>"

record data_stats_rec =
  files_processed :: nat
  stat_successful_loads :: nat
  stat_failed_loads :: nat
  rows_parsed :: nat
  rows_quarantined :: nat
  coercions :: nat
  duplicates :: nat

record pipeline_metadata =
  start_time :: "rat option"
  end_time :: "rat option"
  duration_seconds :: "rat option"
  stages_completed :: "string list"
  stages_failed :: "string list"
  data_stats :: "data_stats_rec option"
  integrity_status :: string
  run_errors :: "pipeline_message list"
  run_warnings :: "pipeline_message list"

definition initial_metadata :: pipeline_metadata where
  "initial_metadata =
     \<lparr>start_time = None, end_time = None, duration_seconds = None,
      stages_completed = [], stages_failed = [], data_stats = None,
      integrity_status = ''unknown'', run_errors = [], run_warnings = []\<rparr>"

record run_env =
  pre_check :: check_outcome
  post_check :: check_outcome
  loaded :: loader_outcome
  clock_start :: rat
  clock_end :: rat
  clock_audit :: string

datatype artifact =
    AuditFile audit_report
  | ManifestFile "data_stats_rec option" bool
  | MetadataFile pipeline_metadata

definition run_integrity_check :: "check_outcome \<Rightarrow> pipeline_metadata \<Rightarrow> bool \<times> pipeline_metadata" where
  "run_integrity_check outcome pm =
     (case outcome of
        ExitZero \<Rightarrow> (True, pm\<lparr>integrity_status := ''verified''\<rparr>)
      | ExitNonZero err \<Rightarrow>
          (False, pm\<lparr>integrity_status := ''violated'',
                      run_errors := run_errors pm @ [IntegrityCheckFailed err]\<rparr>)
      | TimeoutExpired \<Rightarrow> (False, pm\<lparr>run_errors := run_errors pm @ [IntegrityCheckTimeout]\<rparr>)
      | CheckRaised e \<Rightarrow> (False, pm\<lparr>run_errors := run_errors pm @ [IntegrityCheckError e]\<rparr>))"

text \<open>
  \<open>load_and_clean_data\<close>: the metadata, the files written, and the exception raised or the
  audit report returned.
\<close>

definition load_and_clean_data ::
  "pipeline_config \<Rightarrow> run_env \<Rightarrow> pipeline_metadata
     \<Rightarrow> pipeline_metadata \<times> artifact list \<times> (pipeline_message + audit_report)" where
  "load_and_clean_data cfg env pm =
     (case loaded env of
        LoaderRaised e \<Rightarrow>
          (pm\<lparr>run_errors := run_errors pm @ [DataLoadingError (LoaderException e)]\<rparr>, [],
           Inl (LoaderException e))
      | Loaded results \<Rightarrow>
          let audit = generate_audit_report results (clock_audit env);
              total_parsed = total_rows_parsed audit;
              total_quarantined = total_rows_quarantined audit;
              quarantine_ratio = (of_nat total_quarantined :: rat) / of_nat total_parsed;
              exceeded = (total_parsed > 0 \<and> quarantine_ratio > max_quarantine_ratio cfg);
              error_msg = QuarantineRatioExceeded quarantine_ratio (max_quarantine_ratio cfg);
              pm1 = (if exceeded then pm\<lparr>run_errors := run_errors pm @ [error_msg]\<rparr> else pm)
          in if exceeded \<and> fail_on_validation_error cfg then
               (pm1\<lparr>run_errors := run_errors pm1 @ [DataLoadingError error_msg]\<rparr>, [], Inl error_msg)
             else
               (pm1\<lparr>data_stats := Some
                       \<lparr>files_processed = total_files audit,
                        stat_successful_loads = successful_loads audit,
                        stat_failed_loads = failed_loads audit,
                        rows_parsed = total_rows_parsed audit,
                        rows_quarantined = total_rows_quarantined audit,
                        coercions = total_coercions audit,
                        duplicates = total_duplicates audit\<rparr>\<rparr>,
                [AuditFile audit], Inr audit))"

definition generate_metadata_manifest :: "pipeline_metadata \<Rightarrow> artifact" where
  "generate_metadata_manifest pm = ManifestFile (data_stats pm) (integrity_status pm = ''verified'')"

definition complete_stage :: "string \<Rightarrow> pipeline_metadata \<Rightarrow> pipeline_metadata" where
  "complete_stage s pm = pm\<lparr>stages_completed := stages_completed pm @ [s]\<rparr>"

text \<open>
  The \<open>try\<close> block of \<open>run_pipeline\<close>: the metadata and the files written when the block
  ends, and the exception that ended it, if any.
\<close>

definition run_stages ::
  "pipeline_config \<Rightarrow> run_env \<Rightarrow> pipeline_metadata
     \<Rightarrow> pipeline_metadata \<times> artifact list \<times> pipeline_message option" where
  "run_stages cfg env pm0 =
     (let (pre_ok, pm1) = run_integrity_check (pre_check env) pm0 in
      if fail_on_integrity_violation cfg \<and> \<not> pre_ok then (pm1, [], Some PreCheckFailed)
      else
        let pm2 = complete_stage ''integrity_pre_check'' pm1;
            (pm3, written, loaded_report) = load_and_clean_data cfg env pm2
        in case loaded_report of
             Inl e \<Rightarrow> (pm3, written, Some e)
           | Inr audit \<Rightarrow>
               let pm4 = complete_stage ''data_transformation''
                           (complete_stage ''data_validation''
                              (complete_stage ''data_loading'' pm3));
                   (post_ok, pm5) = run_integrity_check (post_check env) pm4
               in if fail_on_integrity_violation cfg \<and> \<not> post_ok then
                    (pm5, written, Some PostCheckFailed)
                  else
                    let pm6 = complete_stage ''integrity_post_check'' pm5
                    in (complete_stage ''metadata_generation'' pm6,
                        written @ [generate_metadata_manifest pm6], None))"

text \<open>
  \<open>run_pipeline\<close>: the \<open>except\<close> handler, then the \<open>finally\<close> block, which writes the run
  metadata. The result is the success flag, the final metadata and the files written.
\<close>

definition run_pipeline ::
  "pipeline_config \<Rightarrow> run_env \<Rightarrow> pipeline_metadata \<Rightarrow> bool \<times> pipeline_metadata \<times> artifact list" where
  "run_pipeline cfg env pm_init =
     (let pm0 = pm_init\<lparr>start_time := Some (clock_start env)\<rparr>;
          (pm1, written, exc) = run_stages cfg env pm0;
          succeeded = (exc = None);
          pm2 = (case exc of
                   None \<Rightarrow> pm1
                 | Some e \<Rightarrow>
                     let pm_e = pm1\<lparr>run_errors := run_errors pm1 @ [e]\<rparr>;
                         failed_stages = filter (\<lambda>s. s \<notin> set (stages_completed pm_e)) (stages cfg)
                     in if failed_stages \<noteq> [] then pm_e\<lparr>stages_failed := failed_stages\<rparr> else pm_e);
          pm3 = pm2\<lparr>end_time := Some (clock_end env),
                    duration_seconds := Some (clock_end env - clock_start env)\<rparr>
      in (succeeded, pm3, written @ [MetadataFile pm3]))"

section \<open>Concrete inputs\<close>

text \<open>A stand-in for the unmodelled part of \<open>str\<close>, for evaluating concrete calls.\<close>

definition no_repr :: "pyval \<Rightarrow> string" where
  "no_repr v = []"

text \<open>The loader as \<open>__init__\<close> leaves it.\<close>

definition new_loader :: loader where
  "new_loader = \<lparr>column_specs = parse_column_specs, load_history = []\<rparr>"

text \<open>
  A projections file with four of the registered columns and three data rows: a row, the same
  player again, and a row with an unknown team code.
\<close>

definition projections_rows :: "raw_row list" where
  "projections_rows =
     [[(Some ''playerName'', Some ''Josh Allen''), (Some ''position'', Some ''QB''),
       (Some ''teamName'', Some ''BUF''), (Some ''fantasyPoints'', Some ''380.5'')],
      [(Some ''playerName'', Some ''josh allen ''), (Some ''position'', Some ''QB''),
       (Some ''teamName'', Some ''BUF''), (Some ''fantasyPoints'', Some ''380.5'')],
      [(Some ''playerName'', Some ''Nobody''), (Some ''position'', Some ''QB''),
       (Some ''teamName'', Some ''XXX''), (Some ''fantasyPoints'', Some ''1'')]]"

definition projections_file :: source_file where
  "projections_file =
     \<lparr>file_path = ''canonical_data/projections_2025.csv'', file_name = ''projections_2025.csv'',
      file_exists = True, file_sha256 = ''00'',
      fieldnames = Some [''playerName'', ''position'', ''teamName'', ''fantasyPoints''],
      file_rows = projections_rows\<rparr>"

text \<open>
  Four records for the duplicate detector: two players, each present twice, with the row
  numbers the loader gives them.
\<close>

definition duplicate_rows :: "row list" where
  "duplicate_rows =
     [[(''_row_number'', PInt 2), (''playerName'', PStr ''Josh Allen'')],
      [(''_row_number'', PInt 3), (''playerName'', PStr ''Josh Allen'')],
      [(''_row_number'', PInt 4), (''playerName'', PStr ''Lamar Jackson'')],
      [(''_row_number'', PInt 5), (''playerName'', PStr ''Lamar Jackson'')]]"

text \<open>
  A run whose loader returned one file with 100 accepted and 15 quarantined rows, under a
  configuration that fails on validation errors.
\<close>

definition strict_config :: pipeline_config where
  "strict_config = PIPELINE_CONFIG\<lparr>fail_on_validation_error := True\<rparr>"

definition scenario_result :: load_result where
  "scenario_result =
     \<lparr>success = True, data = replicate 100 [],
      metadata = \<lparr>path = ''canonical_data/other.csv'', sha256 = ''00'', row_count = 115,
                  column_count = 3, parsed_rows = 100, quarantined_rows = 15, coercion_count = 0,
                  null_count = 0, duplicate_count = 0, load_timestamp = ''t'', exceptions = []\<rparr>,
      quarantined = replicate 15 [], errors = [], warnings = []\<rparr>"

definition scenario_env :: run_env where
  "scenario_env =
     \<lparr>pre_check = ExitZero, post_check = ExitZero,
      loaded = Loaded [(''other.csv'', scenario_result)],
      clock_start = 0, clock_end = 5, clock_audit = ''t''\<rparr>"

text \<open>
  A preseason rankings file with all ten registered columns: a valid row, a row with an
  unknown team code, and a further valid row.
\<close>

definition preseason_fields :: "string list" where
  "preseason_fields =
     [''Team'', ''Point Spread Rating Points'', ''Point Spread Rating QB'',
      ''Strength of Schedule To Date'', ''Strength of Schedule Remaining'',
      ''Projections Avg. Wins'', ''Projections Make Playoffs'',
      ''Projections Win Division Title'', ''Projections Win Conf Champ'',
      ''Projections Win Super Bowl'']"

definition preseason_row :: "string \<Rightarrow> raw_row" where
  "preseason_row team =
     zip (map Some preseason_fields)
       (map Some [team, ''1.5'', ''0.5'', ''0.1'', ''3'', ''8.5'', ''45.3%'', ''20%'', ''5%'', ''1%''])"

definition preseason_file :: source_file where
  "preseason_file =
     \<lparr>file_path = ''canonical_data/preseason_rankings_2025.csv'',
      file_name = ''preseason_rankings_2025.csv'',
      file_exists = True, file_sha256 = ''00'', fieldnames = Some preseason_fields,
      file_rows = [preseason_row ''ARI'', preseason_row ''XXX'', preseason_row ''BUF'']\<rparr>"


section \<open>Auxiliary facts about strings\<close>









section \<open>Counting the rows of a load\<close>




lemma quarantine_duplicates_other:
  "st_total_rows (quarantine_duplicates rp fn st) = st_total_rows st"
  "st_errors (quarantine_duplicates rp fn st) = st_errors st"
  "st_warnings (quarantine_duplicates rp fn st) = st_warnings st"
  "st_exceptions (quarantine_duplicates rp fn st) = st_exceptions st"
  "st_coercion_count (quarantine_duplicates rp fn st) = st_coercion_count st"
  by (simp_all only: quarantine_duplicates_def Let_def split: if_split prod.split, simp_all)


lemma validate_headers_keeps:
  "validate_headers strict specs fns st = (st', exc) \<Longrightarrow>
     st_parsed_data st' = st_parsed_data st \<and> st_quarantined_rows st' = st_quarantined_rows st
     \<and> st_total_rows st' = st_total_rows st
     \<and> (exc \<noteq> None \<longrightarrow> st_errors st' \<noteq> [])
     \<and> (exc = None \<longrightarrow> st_errors st' = st_errors st)"
  by (auto simp: validate_headers_def Let_def split: if_splits)


section \<open>Partition totality of a file load\<close>



section \<open>The value coercer\<close>




text \<open>
  C6, as the claim states it, fails: recognition is case-sensitive. \<open>na\<close> is the lower-case
  form of the token \<open>NA\<close>, and \<open>none\<close> is named by the claim itself, yet a nullable column
  keeps \<open>na\<close> as a string and a non-nullable column accepts \<open>none\<close> without an error.
\<close>

theorem null_token_case_counterexample:
  "''NA'' \<in> NA_TOKENS \<and> py_lower ''NA'' = ''na''
   \<and> parse_value no_repr (Some ''na'') (ColumnSpec ''Data Status'' ''str'' True None) = Inr (PStr ''na'', False)
   \<and> parse_value no_repr (Some ''none'') (ColumnSpec ''playerName'' ''str'' False None) = Inr (PStr ''none'', False)"
  by code_simp

text \<open>
  C6, amended. Null-token recognition is an exact, case-sensitive membership test of the raw
  value, or of the raw value with surrounding whitespace removed, in the fixed token set. When
  it matches, a nullable column gets null with \<open>coerced = false\<close> and a non-nullable column
  fails with the required-value-missing error. A value that does not match is not null: an
  unconstrained string column keeps it as the trimmed string.
\<close>

theorem null_token_exact:
  "(v \<in> NA_TOKENS \<or> py_strip v \<in> NA_TOKENS \<longrightarrow>
      parse_value rp (Some v) spec =
        (if nullable spec then Inr (PNone, False)
         else Inl (ValueError (NonNullableNull (name spec)))))
   \<and> (\<not> (v \<in> NA_TOKENS \<or> py_strip v \<in> NA_TOKENS) \<longrightarrow>
        dtype spec = ''str'' \<longrightarrow> allowed_range spec = None \<longrightarrow>
      parse_value rp (Some v) spec = Inr (PStr (py_strip v), False))"
proof (intro conjI impI)
  assume "v \<in> NA_TOKENS \<or> py_strip v \<in> NA_TOKENS"
  then show "parse_value rp (Some v) spec =
        (if nullable spec then Inr (PNone, False)
         else Inl (ValueError (NonNullableNull (name spec))))"
    by (simp add: parse_value_def is_na_token_def)
next
  assume a: "\<not> (v \<in> NA_TOKENS \<or> py_strip v \<in> NA_TOKENS)" "dtype spec = ''str''"
    "allowed_range spec = None"
  then have "v \<noteq> []" by (auto simp: NA_TOKENS_def)
  then show "parse_value rp (Some v) spec = Inr (PStr (py_strip v), False)"
    using a by (simp add: parse_value_def is_na_token_def try_convert_def validate_allowed_def)
qed

theorem null_token_exact_witness:
  "py_strip '' N/A '' \<in> NA_TOKENS
   \<and> parse_value no_repr (Some '' N/A '') (ColumnSpec ''Data Status'' ''str'' True None) = Inr (PNone, False)
   \<and> parse_value no_repr (Some '' N/A '') (ColumnSpec ''playerName'' ''str'' False None)
        = Inl (ValueError (NonNullableNull ''playerName''))
   \<and> \<not> (''Null'' \<in> NA_TOKENS \<or> py_strip ''Null'' \<in> NA_TOKENS)
   \<and> parse_value no_repr (Some ''Null'') (ColumnSpec ''Data Status'' ''str'' True None) = Inr (PStr ''Null'', False)"
proof -
  have h1: "py_strip '' N/A '' \<in> NA_TOKENS" by code_simp
  have h2: "\<not> (''Null'' \<in> NA_TOKENS \<or> py_strip ''Null'' \<in> NA_TOKENS)" by code_simp
  have h3: "py_strip ''Null'' = ''Null''" by code_simp
  show ?thesis
    using null_token_exact[of "'' N/A ''" no_repr "ColumnSpec ''Data Status'' ''str'' True None"]
      null_token_exact[of "'' N/A ''" no_repr "ColumnSpec ''playerName'' ''str'' False None"]
      null_token_exact[of "''Null''" no_repr "ColumnSpec ''Data Status'' ''str'' True None"]
      h1 h2 h3
    by (simp add: ColumnSpec_def)
qed

text \<open>
  C8. An integer, non-nullable column with range \<open>[1, 18]\<close> turns the raw value \<open>20\<close> into
  \<open>18\<close> with \<open>coerced = true\<close>. In general, when the converted value is a number outside the
  range from the first to the last element of the allowed range, the result is the nearer of
  the two bounds, flagged as coerced, and no error is raised.
\<close>

theorem range_clamped:
  "parse_value rp (Some ''20'') (ColumnSpec cname ''int'' False (Some [PInt 1, PInt 18]))
     = Inr (PInt 18, True)
   \<and> (\<not> is_na_token v \<and> try_convert v spec = Converted x c
        \<and> allowed_range spec = Some ar \<and> ar \<noteq> []
        \<and> num_val x = Some n \<and> num_val (hd ar) = Some l \<and> num_val (last ar) = Some h \<and> l \<le> h
        \<and> \<not> (l \<le> n \<and> n \<le> h)
      \<longrightarrow> (\<exists>r. parse_value rp v spec = Inr (r, True) \<and> r \<in> {hd ar, last ar}
               \<and> num_val r = Some (if n < l then l else h)))"
proof (intro conjI impI)
  show "parse_value rp (Some ''20'') (ColumnSpec cname ''int'' False (Some [PInt 1, PInt 18]))
          = Inr (PInt 18, True)"
    by (simp add: parse_value_def is_na_token_def NA_TOKENS_def py_strip_def py_isspace_def
        ColumnSpec_def try_convert_def convert_int_def remove_char_def py_int_def unsigned_def
        digit_val_def is_negative_def validate_allowed_def is_number_def num_val_def
        validate_numeric_def num_le_def py_min_def py_max_def num_lt_def)
next
  assume a: "\<not> is_na_token v \<and> try_convert v spec = Converted x c
        \<and> allowed_range spec = Some ar \<and> ar \<noteq> []
        \<and> num_val x = Some n \<and> num_val (hd ar) = Some l \<and> num_val (last ar) = Some h \<and> l \<le> h
        \<and> \<not> (l \<le> n \<and> n \<le> h)"
  have xn: "x \<noteq> PNone" using a by (auto simp: num_val_def)
  have pv: "parse_value rp v spec = validate_numeric ar x c"
    using a xn by (simp add: parse_value_def validate_allowed_def is_number_def)
  show "\<exists>r. parse_value rp v spec = Inr (r, True) \<and> r \<in> {hd ar, last ar}
               \<and> num_val r = Some (if n < l then l else h)"
  proof (cases "n < l")
    case True
    then show ?thesis using a pv
      by (simp add: validate_numeric_def num_le_def num_lt_def py_min_def py_max_def Let_def)
  next
    case False
    then have "h < n" using a by auto
    then show ?thesis using a pv False
      by (auto simp add: validate_numeric_def num_le_def num_lt_def py_min_def py_max_def Let_def)
  qed
qed

theorem range_clamped_witness:
  "\<not> is_na_token (Some ''-3.5'')
   \<and> try_convert (Some ''-3.5'') (ColumnSpec ''games'' ''float'' True (num_range 0 17))
       = Converted (PFloat (- 7 / 2)) False
   \<and> parse_value no_repr (Some ''-3.5'') (ColumnSpec ''games'' ''float'' True (num_range 0 17))
       = Inr (PInt 0, True)"
proof -
  let ?spec = "ColumnSpec ''games'' ''float'' True (num_range 0 17)"
  have h1: "\<not> is_na_token (Some ''-3.5'')" by code_simp
  have h2: "try_convert (Some ''-3.5'') ?spec = Converted (PFloat (- 7 / 2)) False" by code_simp
  have h3: "allowed_range ?spec = Some [PInt 0, PInt 17]" by (simp add: ColumnSpec_def num_range_def)
  have "\<exists>r. parse_value no_repr (Some ''-3.5'') ?spec = Inr (r, True)
          \<and> r \<in> {hd [PInt 0, PInt 17], last [PInt 0, PInt 17]}
          \<and> num_val r = Some (if (- 7 / 2 :: rat) < 0 then 0 else 17)"
    using range_clamped[of no_repr _ "Some ''-3.5''" ?spec "PFloat (- 7 / 2)" False
        "[PInt 0, PInt 17]" "- 7 / 2" 0 17] h1 h2 h3
    by (simp add: num_val_def)
  then obtain r where r: "parse_value no_repr (Some ''-3.5'') ?spec = Inr (r, True)"
    "r \<in> {PInt 0, PInt 17}" "num_val r = Some 0"
    by auto
  then have "r = PInt 0" by (auto simp: num_val_def)
  with r h1 h2 show ?thesis by simp
qed

text \<open>
  C9 evaluated on the code. The registered \<open>teamName\<close> column allows the non-standard codes
  themselves, so \<open>ARZ\<close> is an exact member of the allowed set and is returned unchanged with
  \<open>coerced = false\<close>: the alias table is never consulted. With the canonical codes alone as
  the allowed set the same call returns \<open>ARI\<close> with \<open>coerced = true\<close>.
\<close>

theorem team_alias_not_applied:
  "map_of projections_specs ''teamName''
     = Some (ColumnSpec ''teamName'' ''str'' False (categories VALID_TEAMS_WITH_MAPPINGS))
   \<and> parse_value rp (Some ''ARZ'') (ColumnSpec ''teamName'' ''str'' False (categories VALID_TEAMS_WITH_MAPPINGS))
        = Inr (PStr ''ARZ'', False)
   \<and> parse_value rp (Some ''ARZ'') (ColumnSpec ''teamName'' ''str'' False (categories VALID_TEAMS))
        = Inr (PStr ''ARI'', True)"
  by code_simp



section \<open>The row loop and the strict abort\<close>

lemma parse_rows_append:
  "parse_rows rp strict specs n (rows @ later) st =
     (case parse_rows rp strict specs n rows st of
        (st', None) \<Rightarrow> parse_rows rp strict specs (n + length rows) later st'
      | (st', Some e) \<Rightarrow> (st', Some e))"
proof (induction rows arbitrary: n st)
  case Nil
  then show ?case by simp
next
  case (Cons r rest)
  show ?case
    by (simp add: Let_def Cons.IH split: prod.splits option.splits)
qed

lemma parse_rows_total:
  "parse_rows rp strict specs n rows st = (st', None) \<Longrightarrow>
     st_total_rows st' = st_total_rows st + length rows"
proof (induction rows arbitrary: n st)
  case Nil
  then show ?case by simp
next
  case (Cons r rest)
  from Cons.prems show ?case
    by (auto simp: Let_def split: prod.splits option.splits if_splits dest!: Cons.IH)
qed

lemma parse_cells_raises:
  assumes "(Some c, v) \<in> set cells" "map_of specs (py_strip c) = Some spec"
    "parse_value rp v spec = Inl e"
  shows "snd (parse_cells rp True specs n cells rs) \<noteq> None"
  using assms(1)
proof (induction cells arbitrary: rs)
  case Nil
  then show ?case by simp
next
  case (Cons cell rest)
  obtain k w where cell: "cell = (k, w)" by (cases cell)
  show ?case
  proof (cases k)
    case None
    with Cons cell show ?thesis by auto
  next
    case (Some c')
    show ?thesis
    proof (cases "map_of specs (py_strip c')")
      case None
      with Cons cell Some assms(2) show ?thesis by (auto simp: Let_def)
    next
      case sp: (Some spec')
      show ?thesis
      proof (cases "parse_value rp w spec'")
        case (Inl e')
        then show ?thesis using cell Some sp
          by (cases e') (simp_all add: Let_def)
      next
        case (Inr pr)
        then have "(Some c, v) \<noteq> (k, w)" using assms(2,3) Some sp by auto
        then have "(Some c, v) \<in> set rest" using Cons.prems cell by auto
        from Cons.IH[OF this] show ?thesis using cell Some sp Inr
          by (simp add: Let_def split: prod.splits)
      qed
    qed
  qed
qed


lemma quarantine_duplicates_cong:
  assumes "st_parsed_data a = st_parsed_data b" "st_quarantined_rows a = st_quarantined_rows b"
  shows "st_parsed_data (quarantine_duplicates rp fn a) = st_parsed_data (quarantine_duplicates rp fn b)
       \<and> st_quarantined_rows (quarantine_duplicates rp fn a) = st_quarantined_rows (quarantine_duplicates rp fn b)"
  using assms
  by (simp only: quarantine_duplicates_def Let_def split: if_split prod.split, simp)

lemma read_file_unfold:
  "read_file rp strict specs f =
     (case validate_headers strict specs (fieldnames f)
             \<lparr>st_parsed_data = [], st_quarantined_rows = [], st_errors = [], st_warnings = [],
              st_coercion_count = 0, st_null_count = 0, st_total_rows = 0, st_exceptions = []\<rparr> of
        (st1, Some e) \<Rightarrow>
          st1\<lparr>st_errors := st_errors st1 @ [exception_message e],
              st_exceptions := st_exceptions st1 @ [ErrorOnly (exception_message e)]\<rparr>
      | (st1, None) \<Rightarrow>
          (case parse_rows rp strict specs 2 (file_rows f) st1 of
             (st2, None) \<Rightarrow> st2
           | (st2, Some e) \<Rightarrow>
               st2\<lparr>st_errors := st_errors st2 @ [exception_message e],
                   st_exceptions := st_exceptions st2 @ [ErrorOnly (exception_message e)]\<rparr>))"
  by (simp add: read_file_def Let_def split: prod.splits option.splits)

lemma load_csv_fields:
  assumes "file_exists f" "fieldnames f = Some fns"
    and "st = quarantine_duplicates rp (file_name f)
                (read_file rp strict (case map_of (column_specs ld) (file_name f) of None \<Rightarrow> [] | Some s \<Rightarrow> s) f)"
  shows "\<exists>ld' r sk. load_csv rp ld f strict now = Inr (ld', r, sk)
           \<and> success r = (st_errors st = []) \<and> errors r = st_errors st
           \<and> data r = st_parsed_data st \<and> quarantined r = st_quarantined_rows st
           \<and> row_count (metadata r) = st_total_rows st
           \<and> parsed_rows (metadata r) = length (st_parsed_data st)
           \<and> quarantined_rows (metadata r) = length (st_quarantined_rows st)
           \<and> quarantine_sink sk = (if st_quarantined_rows st \<noteq> [] then Some (st_quarantined_rows st) else None)
           \<and> clean_sink sk = (if st_parsed_data st \<noteq> [] \<and> st_errors st = []
                               then Some (map clean_row (st_parsed_data st)) else None)"
  using assms by (simp add: load_csv_def Let_def)

lemma strict_missing_columns:
  assumes "specs \<noteq> []" "set (map fst specs) - set fns \<noteq> {}"
  shows "read_file rp True specs (f\<lparr>fieldnames := Some fns\<rparr>) =
     \<lparr>st_parsed_data = [], st_quarantined_rows = [],
      st_errors = [MissingColumns (set (map fst specs) - set fns), MissingColumns (set (map fst specs) - set fns)],
      st_warnings = [], st_coercion_count = 0, st_null_count = 0, st_total_rows = 0,
      st_exceptions = [ErrorOnly (MissingColumns (set (map fst specs) - set fns))]\<rparr>"
  using assms by (simp add: read_file_def validate_headers_def Let_def exception_message_def)

lemma strict_prefix_kept:
  assumes A: "load_csv rp ld (f\<lparr>file_rows := pre\<rparr>) True now = Inr (lda, ra, ska)" "success ra"
    and L: "map_of (column_specs ld) (file_name f) = Some specs"
    and B: "(Some c, v) \<in> set bad" "map_of specs (py_strip c) = Some spec" "parse_value rp v spec = Inl e"
  shows "\<exists>ld1 r1 sk1.
           load_csv rp ld (f\<lparr>file_rows := pre @ bad # post\<rparr>) True now = Inr (ld1, r1, sk1)
           \<and> \<not> success r1 \<and> row_count (metadata r1) = length pre + 1
           \<and> clean_sink sk1 = None
           \<and> data r1 = data ra \<and> parsed_rows (metadata r1) = length (data ra)
           \<and> quarantined r1 = quarantined ra \<and> quarantine_sink sk1 = quarantine_sink ska"
proof -
  let ?f0 = "f\<lparr>file_rows := pre\<rparr>" and ?f2 = "f\<lparr>file_rows := pre @ bad # post\<rparr>"
  let ?st0 = "\<lparr>st_parsed_data = [], st_quarantined_rows = [], st_errors = [], st_warnings = [],
              st_coercion_count = 0, st_null_count = 0, st_total_rows = 0, st_exceptions = []\<rparr>"
  have ex: "file_exists f"
    using A by (auto simp: load_csv_def not_found_result_def split: if_splits)
  obtain fns where fns: "fieldnames f = Some fns"
    using A ex by (cases "fieldnames f") (auto simp: load_csv_def Let_def)
  have sp: "(case map_of (column_specs ld) (file_name f) of None \<Rightarrow> [] | Some s \<Rightarrow> s) = specs"
    using L by simp
  define q0 where "q0 = quarantine_duplicates rp (file_name f) (read_file rp True specs ?f0)"
  define q2 where "q2 = quarantine_duplicates rp (file_name f) (read_file rp True specs ?f2)"
  from load_csv_fields[of ?f0 fns q0 rp True ld now] ex fns sp A
  have ra: "st_errors q0 = []" "data ra = st_parsed_data q0" "quarantined ra = st_quarantined_rows q0"
    "quarantine_sink ska = (if st_quarantined_rows q0 \<noteq> [] then Some (st_quarantined_rows q0) else None)"
    by (auto simp: q0_def)
  have e0: "st_errors (read_file rp True specs ?f0) = []"
    using ra(1) by (simp add: q0_def quarantine_duplicates_other)
  obtain st1 x where vh: "validate_headers True specs (Some fns) ?st0 = (st1, x)"
    by (cases "validate_headers True specs (Some fns) ?st0") auto
  have x: "x = None"
  proof (rule ccontr)
    assume "x \<noteq> None"
    then have "st_errors (read_file rp True specs ?f0) \<noteq> []"
      using vh fns by (auto simp: read_file_unfold)
    with e0 show False by simp
  qed
  obtain st2 y where pr: "parse_rows rp True specs 2 pre st1 = (st2, y)"
    by (cases "parse_rows rp True specs 2 pre st1") auto
  have y: "y = None"
  proof (rule ccontr)
    assume "y \<noteq> None"
    then have "st_errors (read_file rp True specs ?f0) \<noteq> []"
      using vh x pr fns by (auto simp: read_file_unfold)
    with e0 show False by simp
  qed
  have rf0: "read_file rp True specs ?f0 = st2"
    using vh x pr y fns by (simp add: read_file_unfold)
  have tot: "st_total_rows st2 = length pre"
    using parse_rows_total[OF pr[unfolded y]] validate_headers_keeps[OF vh] by simp
  let ?init = "\<lparr>rs_parsed_row = [(''_row_number'', PInt (int (2 + length pre)))],
               rs_row_exceptions = [], rs_row_valid = True,
               rs_coercion_count = st_coercion_count st2,
               rs_null_count = st_null_count st2\<rparr>"
  obtain rs exc where pc: "parse_cells rp True specs (2 + length pre) bad ?init = (rs, exc)"
    by (cases "parse_cells rp True specs (2 + length pre) bad ?init") auto
  obtain e' where exc: "exc = Some e'"
    using parse_cells_raises[OF B, of "2 + length pre" ?init] pc by auto
  define st3 where "st3 = st2\<lparr>st_total_rows := st_total_rows st2 + 1,
                   st_coercion_count := rs_coercion_count rs,
                   st_null_count := rs_null_count rs\<rparr>"
  have "parse_rows rp True specs (2 + length pre) (bad # post) st2 = (st3, Some e')"
    using pc exc by (simp add: Let_def st3_def)
  then have "parse_rows rp True specs 2 (pre @ bad # post) st1 = (st3, Some e')"
    using pr y by (simp add: parse_rows_append)
  then have rf2: "read_file rp True specs ?f2 =
      st3\<lparr>st_errors := st_errors st3 @ [exception_message e'],
          st_exceptions := st_exceptions st3 @ [ErrorOnly (exception_message e')]\<rparr>"
    using vh x fns by (simp add: read_file_unfold)
  have same: "st_parsed_data (read_file rp True specs ?f2) = st_parsed_data (read_file rp True specs ?f0)"
    "st_quarantined_rows (read_file rp True specs ?f2) = st_quarantined_rows (read_file rp True specs ?f0)"
    by (simp_all add: rf2 rf0 st3_def)
  have q: "st_parsed_data q2 = st_parsed_data q0" "st_quarantined_rows q2 = st_quarantined_rows q0"
    using quarantine_duplicates_cong[OF same] by (simp_all add: q0_def q2_def)
  have q2e: "st_errors q2 \<noteq> []" "st_total_rows q2 = length pre + 1"
    by (simp_all add: q2_def quarantine_duplicates_other rf2 st3_def tot)
  from load_csv_fields[of ?f2 fns q2 rp True ld now] ex fns sp
  obtain ld1 r1 sk1 where r1: "load_csv rp ld ?f2 True now = Inr (ld1, r1, sk1)"
    "success r1 = (st_errors q2 = [])" "data r1 = st_parsed_data q2"
    "quarantined r1 = st_quarantined_rows q2" "row_count (metadata r1) = st_total_rows q2"
    "parsed_rows (metadata r1) = length (st_parsed_data q2)"
    "quarantine_sink sk1 = (if st_quarantined_rows q2 \<noteq> [] then Some (st_quarantined_rows q2) else None)"
    "clean_sink sk1 = (if st_parsed_data q2 \<noteq> [] \<and> st_errors q2 = []
                               then Some (map clean_row (st_parsed_data q2)) else None)"
    by (auto simp: q2_def)
  show ?thesis
    using r1 ra q q2e by simp
qed

lemma strict_missing_load:
  assumes "file_exists f" "fieldnames f = Some fns"
    "map_of (column_specs ld) (file_name f) = Some specs" "specs \<noteq> []"
    "set (map fst specs) - set fns \<noteq> {}"
  shows "\<exists>ld1 r1. load_csv rp ld f True now
            = Inr (ld1, r1, \<lparr>quarantine_sink = None, clean_sink = None\<rparr>)
          \<and> \<not> success r1 \<and> data r1 = [] \<and> quarantined r1 = []
          \<and> row_count (metadata r1) = 0
          \<and> errors r1 = [MissingColumns (set (map fst specs) - set fns),
                          MissingColumns (set (map fst specs) - set fns)]"
proof -
  have f: "f\<lparr>fieldnames := Some fns\<rparr> = f" using assms(2) by simp
  have rf: "read_file rp True specs f =
     \<lparr>st_parsed_data = [], st_quarantined_rows = [],
      st_errors = [MissingColumns (set (map fst specs) - set fns), MissingColumns (set (map fst specs) - set fns)],
      st_warnings = [], st_coercion_count = 0, st_null_count = 0, st_total_rows = 0,
      st_exceptions = [ErrorOnly (MissingColumns (set (map fst specs) - set fns))]\<rparr>"
    using strict_missing_columns[OF assms(4,5), of rp f] f by simp
  have qd: "quarantine_duplicates rp (file_name f) (read_file rp True specs f) = read_file rp True specs f"
    by (simp add: rf quarantine_duplicates_def)
  show ?thesis
    using assms(1,2,3) by (simp add: load_csv_def Let_def qd) (simp add: rf)
qed


text \<open>
  C5, as the claim states it, fails: the partial accepted output is not discarded. A strict load
  of the preseason file, whose second row has an unknown team code, is reported as failed, yet
  the result still carries the first row in its data and counts it in \<open>parsed_rows\<close>.
\<close>

theorem strict_abort_counterexample:
  "success (fst (snd (projr (load_csv no_repr new_loader preseason_file True ''t'')))) = False
   \<and> data (fst (snd (projr (load_csv no_repr new_loader preseason_file True ''t'')))) =
       [[(''_row_number'', PInt 2), (''Team'', PStr ''ARI''),
         (''Point Spread Rating Points'', PFloat (3 / 2)),
         (''Point Spread Rating QB'', PFloat (1 / 2)),
         (''Strength of Schedule To Date'', PFloat (1 / 10)),
         (''Strength of Schedule Remaining'', PInt 3),
         (''Projections Avg. Wins'', PFloat (17 / 2)),
         (''Projections Make Playoffs'', PFloat (453 / 10)),
         (''Projections Win Division Title'', PFloat 20),
         (''Projections Win Conf Champ'', PFloat 5),
         (''Projections Win Super Bowl'', PFloat 1)]]
   \<and> parsed_rows (metadata (fst (snd (projr (load_csv no_repr new_loader preseason_file True ''t''))))) = 1"
  by code_simp

text \<open>
  C5, amended. In strict mode the first row with a coercion failure aborts the file load at
  once: the load is reported as failed, the row count stops at the failing row whatever
  follows it, and nothing is written to the clean-data sink. The rows accepted before the
  failure are not discarded from the result: its data, its quarantined rows and what it writes
  to the quarantine sink are those of a load of the rows before the failing one. A file
  missing a registered column in strict mode returns a failed result with no accepted and no
  quarantined rows, no row read, and nothing written to either sink.
\<close>

theorem strict_abort:
  "(load_csv rp ld (f\<lparr>file_rows := pre\<rparr>) True now = Inr (lda, ra, ska) \<and> success ra
      \<and> map_of (column_specs ld) (file_name f) = Some specs
      \<and> (Some c, v) \<in> set bad \<and> map_of specs (py_strip c) = Some spec
      \<and> parse_value rp v spec = Inl e
    \<longrightarrow> (\<exists>ld1 r1 sk1.
           load_csv rp ld (f\<lparr>file_rows := pre @ bad # post\<rparr>) True now = Inr (ld1, r1, sk1)
           \<and> \<not> success r1 \<and> row_count (metadata r1) = length pre + 1
           \<and> clean_sink sk1 = None
           \<and> data r1 = data ra \<and> parsed_rows (metadata r1) = length (data ra)
           \<and> quarantined r1 = quarantined ra \<and> quarantine_sink sk1 = quarantine_sink ska))
   \<and> (file_exists f \<and> fieldnames f = Some fns
      \<and> map_of (column_specs ld) (file_name f) = Some specs \<and> specs \<noteq> []
      \<and> set (map fst specs) - set fns \<noteq> {}
    \<longrightarrow> (\<exists>ld1 r1. load_csv rp ld f True now
            = Inr (ld1, r1, \<lparr>quarantine_sink = None, clean_sink = None\<rparr>)
          \<and> \<not> success r1 \<and> data r1 = [] \<and> quarantined r1 = []
          \<and> row_count (metadata r1) = 0
          \<and> errors r1 = [MissingColumns (set (map fst specs) - set fns),
                          MissingColumns (set (map fst specs) - set fns)]))"
proof (intro conjI impI)
  assume a: "load_csv rp ld (f\<lparr>file_rows := pre\<rparr>) True now = Inr (lda, ra, ska) \<and> success ra
      \<and> map_of (column_specs ld) (file_name f) = Some specs
      \<and> (Some c, v) \<in> set bad \<and> map_of specs (py_strip c) = Some spec
      \<and> parse_value rp v spec = Inl e"
  then show "\<exists>ld1 r1 sk1.
           load_csv rp ld (f\<lparr>file_rows := pre @ bad # post\<rparr>) True now = Inr (ld1, r1, sk1)
           \<and> \<not> success r1 \<and> row_count (metadata r1) = length pre + 1
           \<and> clean_sink sk1 = None
           \<and> data r1 = data ra \<and> parsed_rows (metadata r1) = length (data ra)
           \<and> quarantined r1 = quarantined ra \<and> quarantine_sink sk1 = quarantine_sink ska"
    using strict_prefix_kept[where rp=rp and ld=ld and f=f and pre=pre and now=now and lda=lda
        and ra=ra and ska=ska and specs=specs and c=c and v=v and bad=bad and spec=spec and e=e
        and post=post]
    by blast
next
  assume a: "file_exists f \<and> fieldnames f = Some fns
      \<and> map_of (column_specs ld) (file_name f) = Some specs \<and> specs \<noteq> []
      \<and> set (map fst specs) - set fns \<noteq> {}"
  then show "\<exists>ld1 r1. load_csv rp ld f True now
            = Inr (ld1, r1, \<lparr>quarantine_sink = None, clean_sink = None\<rparr>)
          \<and> \<not> success r1 \<and> data r1 = [] \<and> quarantined r1 = []
          \<and> row_count (metadata r1) = 0
          \<and> errors r1 = [MissingColumns (set (map fst specs) - set fns),
                          MissingColumns (set (map fst specs) - set fns)]"
    using strict_missing_load[where f=f and fns=fns and ld=ld and specs=specs and rp=rp and now=now]
    by blast
qed

theorem strict_abort_witness:
  "success (fst (snd (projr (load_csv no_repr new_loader
               (preseason_file\<lparr>file_rows := [preseason_row ''ARI'']\<rparr>) True ''t''))))
   \<and> parse_value no_repr (Some ''XXX'')
        (ColumnSpec ''Team'' ''str'' False (categories VALID_TEAMS_WITH_MAPPINGS))
       = Inl (ValueError (InvalidValue ''XXX'' ''Team''))
   \<and> \<not> success (fst (snd (projr (load_csv no_repr new_loader preseason_file True ''t''))))
   \<and> row_count (metadata (fst (snd (projr (load_csv no_repr new_loader preseason_file True ''t''))))) = 2
   \<and> clean_sink (snd (snd (projr (load_csv no_repr new_loader preseason_file True ''t'')))) = None
   \<and> data (fst (snd (projr (load_csv no_repr new_loader preseason_file True ''t''))))
       = data (fst (snd (projr (load_csv no_repr new_loader
               (preseason_file\<lparr>file_rows := [preseason_row ''ARI'']\<rparr>) True ''t''))))
   \<and> set (map fst projections_specs) - set [''playerName'', ''position'', ''teamName'', ''fantasyPoints''] \<noteq> {}
   \<and> \<not> success (fst (snd (projr (load_csv no_repr new_loader projections_file True ''t''))))
   \<and> snd (snd (projr (load_csv no_repr new_loader projections_file True ''t'')))
       = \<lparr>quarantine_sink = None, clean_sink = None\<rparr>
   \<and> data (fst (snd (projr (load_csv no_repr new_loader projections_file True ''t'')))) = []
   \<and> quarantined (fst (snd (projr (load_csv no_repr new_loader projections_file True ''t'')))) = []"
proof -
  define res0 where "res0 = load_csv no_repr new_loader
               (preseason_file\<lparr>file_rows := [preseason_row ''ARI'']\<rparr>) True ''t''"
  let ?spec = "ColumnSpec ''Team'' ''str'' False (categories VALID_TEAMS_WITH_MAPPINGS)"
  have ev: "\<not> isl res0 \<and> success (fst (snd (projr res0)))"
    unfolding res0_def by code_simp
  then obtain lda ra ska where ra: "res0 = Inr (lda, ra, ska)" "success ra"
    by (cases res0) auto
  have L: "map_of (column_specs new_loader) (file_name preseason_file) = Some preseason_specs"
    by (simp add: new_loader_def preseason_file_def parse_column_specs_def)
  have B1: "(Some ''Team'', Some ''XXX'') \<in> set (preseason_row ''XXX'')"
    by (simp add: preseason_row_def preseason_fields_def)
  have B2: "map_of preseason_specs (py_strip ''Team'') = Some ?spec" by code_simp
  have B3: "parse_value no_repr (Some ''XXX'') ?spec = Inl (ValueError (InvalidValue ''XXX'' ''Team''))"
    by code_simp
  have F: "preseason_file\<lparr>file_rows := [preseason_row ''ARI''] @ preseason_row ''XXX'' # [preseason_row ''BUF'']\<rparr>
            = preseason_file"
    by (simp add: preseason_file_def)
  from strict_abort[where rp=no_repr and ld=new_loader and f=preseason_file
      and pre="[preseason_row ''ARI'']" and now="''t''" and lda=lda and ra=ra and ska=ska
      and specs=preseason_specs and c="''Team''" and v="Some ''XXX''" and bad="preseason_row ''XXX''"
      and spec="?spec" and e="ValueError (InvalidValue ''XXX'' ''Team'')"
      and post="[preseason_row ''BUF'']", THEN conjunct1]
  obtain ld1 r1 sk1 where r1: "load_csv no_repr new_loader preseason_file True ''t'' = Inr (ld1, r1, sk1)"
    "\<not> success r1" "row_count (metadata r1) = 2" "clean_sink sk1 = None" "data r1 = data ra"
    using ra L B1 B2 B3 F unfolding res0_def by auto
  have M: "set (map fst projections_specs) - set [''playerName'', ''position'', ''teamName'', ''fantasyPoints''] \<noteq> {}"
  proof -
    have "''byeWeek'' \<in> set (map fst projections_specs) - set [''playerName'', ''position'', ''teamName'', ''fantasyPoints'']"
      by (simp add: projections_specs_def spec_entry_def)
    then show ?thesis by blast
  qed
  have P: "file_exists projections_file"
    "fieldnames projections_file = Some [''playerName'', ''position'', ''teamName'', ''fantasyPoints'']"
    "map_of (column_specs new_loader) (file_name projections_file) = Some projections_specs"
    "projections_specs \<noteq> []"
    by (simp_all add: projections_file_def new_loader_def parse_column_specs_def projections_specs_def)
  from strict_abort[where ld=new_loader and f=projections_file and specs=projections_specs
      and fns="[''playerName'', ''position'', ''teamName'', ''fantasyPoints'']" and rp=no_repr
      and now="''t''", THEN conjunct2]
  obtain ld2 r2 where r2: "load_csv no_repr new_loader projections_file True ''t''
       = Inr (ld2, r2, \<lparr>quarantine_sink = None, clean_sink = None\<rparr>)"
    "\<not> success r2" "data r2 = []" "quarantined r2 = []"
    using P M by auto
  show ?thesis
    using ra r1 r2 B3 M unfolding res0_def by simp
qed

section \<open>Header validation\<close>




section \<open>The duplicate detector\<close>

text \<open>
  C1 evaluated on the code. Of four records, two for each of two players, the first of each
  player is kept in order and the others are reported as duplicates. The duplicate of the
  second player is annotated with 2, the position of the kept record among the unique records,
  while the first record of that player is the third record of the input and carries row
  number 4.
\<close>

theorem duplicate_of_row_is_unique_index:
  "detect_duplicates rp duplicate_rows [''playerName''] =
     ([[(''_row_number'', PInt 2), (''playerName'', PStr ''Josh Allen'')],
       [(''_row_number'', PInt 4), (''playerName'', PStr ''Lamar Jackson'')]],
      [[(''_row_number'', PInt 3), (''playerName'', PStr ''Josh Allen''),
        (''_duplicate_of_row'', PInt 1), (''_duplicate_key'', PStr ''josh allen'')],
       [(''_row_number'', PInt 5), (''playerName'', PStr ''Lamar Jackson''),
        (''_duplicate_of_row'', PInt 2), (''_duplicate_key'', PStr ''lamar jackson'')]])
   \<and> duplicate_rows ! 2 = [(''_row_number'', PInt 4), (''playerName'', PStr ''Lamar Jackson'')]"
  by code_simp

section \<open>The quarantine-ratio ceiling of the pipeline\<close>

text \<open>
  C4. When the loading stage is reached, the quarantined rows divided by the parsed rows exceed
  \<open>max_quarantine_ratio\<close> and \<open>fail_on_validation_error\<close> is set, the run returns failure
  with the quarantine-ratio error in its error list, and the finalization still runs: the end
  time and the duration are recorded, the stages not completed are recorded as failed, and the
  run metadata is written.
\<close>

theorem quarantine_ratio_failure:
  assumes "loaded env = Loaded results"
    and "fail_on_integrity_violation cfg \<longrightarrow> pre_check env = ExitZero"
    and "total_rows_parsed (generate_audit_report results (clock_audit env)) > 0"
    and "(of_nat (total_rows_quarantined (generate_audit_report results (clock_audit env))) :: rat)
           / of_nat (total_rows_parsed (generate_audit_report results (clock_audit env)))
         > max_quarantine_ratio cfg"
    and "fail_on_validation_error cfg"
  shows "\<exists>pm' written.
           run_pipeline cfg env pm = (False, pm', written)
           \<and> QuarantineRatioExceeded
                ((of_nat (total_rows_quarantined (generate_audit_report results (clock_audit env))) :: rat)
                   / of_nat (total_rows_parsed (generate_audit_report results (clock_audit env))))
                (max_quarantine_ratio cfg) \<in> set (run_errors pm')
           \<and> written = [MetadataFile pm']
           \<and> end_time pm' = Some (clock_end env)
           \<and> duration_seconds pm' = Some (clock_end env - clock_start env)
           \<and> stages_completed pm' = stages_completed pm @ [''integrity_pre_check'']
           \<and> stages_failed pm' =
               (if filter (\<lambda>s. s \<notin> set (stages_completed pm')) (stages cfg) \<noteq> []
                then filter (\<lambda>s. s \<notin> set (stages_completed pm')) (stages cfg)
                else stages_failed pm)"
proof -
  obtain ok pm1 where ic: "run_integrity_check (pre_check env) (pm\<lparr>start_time := Some (clock_start env)\<rparr>) = (ok, pm1)"
    by (cases "run_integrity_check (pre_check env) (pm\<lparr>start_time := Some (clock_start env)\<rparr>)") auto
  have go: "\<not> (fail_on_integrity_violation cfg \<and> \<not> ok)"
    using assms(2) ic by (auto simp: run_integrity_check_def)
  have sc: "stages_completed pm1 = stages_completed pm" "stages_failed pm1 = stages_failed pm"
    using ic by (auto simp: run_integrity_check_def split: check_outcome.splits)
  show ?thesis
    using assms(1,3,4,5) go sc ic
    by (simp add: run_pipeline_def run_stages_def load_and_clean_data_def complete_stage_def Let_def)
qed

theorem quarantine_ratio_failure_witness:
  "loaded scenario_env = Loaded [(''other.csv'', scenario_result)]
   \<and> fail_on_integrity_violation strict_config \<and> pre_check scenario_env = ExitZero
   \<and> total_rows_parsed (generate_audit_report [(''other.csv'', scenario_result)] (clock_audit scenario_env)) = 100
   \<and> total_rows_quarantined (generate_audit_report [(''other.csv'', scenario_result)] (clock_audit scenario_env)) = 15
   \<and> max_quarantine_ratio strict_config = 1 / 10
   \<and> fail_on_validation_error strict_config
   \<and> fst (run_pipeline strict_config scenario_env initial_metadata) = False
   \<and> QuarantineRatioExceeded (15 / 100) (1 / 10)
        \<in> set (run_errors (fst (snd (run_pipeline strict_config scenario_env initial_metadata))))
   \<and> snd (snd (run_pipeline strict_config scenario_env initial_metadata))
        = [MetadataFile (fst (snd (run_pipeline strict_config scenario_env initial_metadata)))]
   \<and> stages_completed (fst (snd (run_pipeline strict_config scenario_env initial_metadata)))
        = [''integrity_pre_check'']
   \<and> stages_failed (fst (snd (run_pipeline strict_config scenario_env initial_metadata)))
        = [''data_loading'', ''data_validation'', ''data_transformation'',
           ''integrity_post_check'', ''metadata_generation'']"
proof -
  let ?results = "[(''other.csv'', scenario_result)]"
  have h1: "loaded scenario_env = Loaded ?results" by (simp add: scenario_env_def)
  have h2: "fail_on_integrity_violation strict_config \<longrightarrow> pre_check scenario_env = ExitZero"
    by (simp add: scenario_env_def)
  have tp: "total_rows_parsed (generate_audit_report ?results (clock_audit scenario_env)) = 100"
    and tq: "total_rows_quarantined (generate_audit_report ?results (clock_audit scenario_env)) = 15"
    by (simp_all add: generate_audit_report_def scenario_result_def)
  have mq: "max_quarantine_ratio strict_config = 1 / 10"
    and fv: "fail_on_validation_error strict_config"
    and st: "stages strict_config = [''integrity_pre_check'', ''data_loading'', ''data_validation'',
                ''data_transformation'', ''integrity_post_check'', ''metadata_generation'']"
    by (simp_all add: strict_config_def PIPELINE_CONFIG_def)
  have h3: "total_rows_parsed (generate_audit_report ?results (clock_audit scenario_env)) > 0"
    using tp by simp
  have h4: "(of_nat (total_rows_quarantined (generate_audit_report ?results (clock_audit scenario_env))) :: rat)
           / of_nat (total_rows_parsed (generate_audit_report ?results (clock_audit scenario_env)))
         > max_quarantine_ratio strict_config"
    using tp tq mq by simp
  from quarantine_ratio_failure[OF h1 h2 h3 h4 fv, of initial_metadata]
  obtain pm' written where r:
    "run_pipeline strict_config scenario_env initial_metadata = (False, pm', written)"
    "QuarantineRatioExceeded (15 / 100) (1 / 10) \<in> set (run_errors pm')"
    "written = [MetadataFile pm']"
    "stages_completed pm' = [''integrity_pre_check'']"
    "stages_failed pm' =
               (if filter (\<lambda>s. s \<notin> set (stages_completed pm')) (stages strict_config) \<noteq> []
                then filter (\<lambda>s. s \<notin> set (stages_completed pm')) (stages strict_config)
                else stages_failed initial_metadata)"
    using tp tq mq by (auto simp: initial_metadata_def)
  have "stages_failed pm' = [''data_loading'', ''data_validation'', ''data_transformation'',
           ''integrity_post_check'', ''metadata_generation'']"
    using r(4,5) st by simp
  moreover have "fail_on_integrity_violation strict_config" "pre_check scenario_env = ExitZero"
    by (simp_all add: strict_config_def PIPELINE_CONFIG_def scenario_env_def)
  ultimately show ?thesis using r h1 tp tq mq fv by simp
qed

end
